theory Spec2Isabelle
  imports Main "HOL-Library.Sublist"
begin

section \<open>The "Add Cluster As Release" plugin (plugins/addrelease/addrelease.py)\<close>

text \<open>
  A shallow embedding of the plugin. Python strings are modelled as \<open>string\<close>, one
  \<open>char\<close> per code point, which covers the code points below 256. Python integers are
  \<open>int\<close>. The plugin's instance fields, the logging sink and the browser are one
  explicit state record. Every operation that can raise returns its outcome as a sum
  (\<open>Inl\<close> the exception) next to the state it leaves behind, since an exception does not
  undo the assignments made before it.
\<close>

subsection \<open>Python built-ins used by the plugin\<close>

datatype error = ValueError string | IndexError | AttributeError

text \<open>\<open>str.split(sep, 1)\<close> for a one-character separator: at most one split, made at the
  first occurrence of the separator.\<close>

definition split1 :: "char \<Rightarrow> string \<Rightarrow> string list" where
  "split1 sep s =
     (if sep \<in> set s
      then [takeWhile (\<lambda>c. c \<noteq> sep) s, tl (dropWhile (\<lambda>c. c \<noteq> sep) s)]
      else [s])"

text \<open>Indexing a list with \<open>[0]\<close> raises IndexError on the empty list.\<close>

definition item0 :: "'a list \<Rightarrow> error + 'a" where
  "item0 xs = (case xs of [] \<Rightarrow> Inl IndexError | x # _ \<Rightarrow> Inr x)"

text \<open>The characters that \<open>int()\<close> strips from both ends of its argument: the code
  points below 256 that Python classifies as whitespace.\<close>

definition isspace :: "char \<Rightarrow> bool" where
  "isspace c =
     (let n = (of_char c :: nat)
      in (9 \<le> n \<and> n \<le> 13) \<or> (28 \<le> n \<and> n \<le> 32) \<or> n = 133 \<or> n = 160)"

definition strip :: "string \<Rightarrow> string" where
  "strip s = rev (dropWhile isspace (rev (dropWhile isspace s)))"

definition isdigit :: "char \<Rightarrow> bool" where
  "isdigit c = (let n = (of_char c :: nat) in 48 \<le> n \<and> n \<le> 57)"

definition digit_val :: "char \<Rightarrow> nat" where
  "digit_val c = of_char c - 48"

text \<open>The digits of a decimal literal, read left to right. A single underscore is
  accepted only between two digits; the caller checks that the first character is a
  digit.\<close>

fun int_digits :: "nat \<Rightarrow> string \<Rightarrow> nat option" where
  "int_digits acc [] = Some acc"
| "int_digits acc (c # cs) =
     (if isdigit c then int_digits (10 * acc + digit_val c) cs
      else if c = CHR ''_'' \<and> cs \<noteq> [] \<and> isdigit (hd cs) then int_digits acc cs
      else None)"

text \<open>\<open>int(s)\<close> on a string, base 10: surrounding whitespace is dropped, one optional
  sign is read, and the rest must be a non-empty digit sequence. Anything else raises
  ValueError, whose message quotes the argument. (An interpreter-wide limit on the
  number of digits, where the interpreter has one, is not part of this model.)\<close>

definition int_py :: "string \<Rightarrow> error + int" where
  "int_py s =
     (let t = strip s;
          neg = (t \<noteq> [] \<and> hd t = CHR ''-'');
          u = (if t \<noteq> [] \<and> (hd t = CHR ''-'' \<or> hd t = CHR ''+'') then tl t else t)
      in if u \<noteq> [] \<and> isdigit (hd u)
         then (case int_digits 0 u of
                 None \<Rightarrow> Inl (ValueError s)
               | Some n \<Rightarrow> Inr (if neg then - int n else int n))
         else Inl (ValueError s))"

text \<open>\<open>str(n)\<close> and the \<open>%d\<close> conversion of an integer: decimal digits, with a minus sign
  for a negative number.\<close>

definition digit_char :: "nat \<Rightarrow> char" where
  "digit_char n = char_of (48 + n)"

fun str_nat :: "nat \<Rightarrow> string" where
  "str_nat n = (if n < 10 then [digit_char n] else str_nat (n div 10) @ [digit_char (n mod 10)])"

declare str_nat.simps [simp del]

definition str_int :: "int \<Rightarrow> string" where
  "str_int i = (if i < 0 then CHR ''-'' # str_nat (nat (- i)) else str_nat (nat i))"

text \<open>\<open>d[k] = v\<close> on a dictionary, which keeps its keys in insertion order: the value of a
  key that is present is replaced where it stands, a new key goes to the end.\<close>

fun dict_setitem :: "'k \<Rightarrow> 'v \<Rightarrow> ('k \<times> 'v) list \<Rightarrow> ('k \<times> 'v) list" where
  "dict_setitem k v [] = [(k, v)]"
| "dict_setitem k v (e # d) =
     (if fst e = k then (fst e, v) # d else e # dict_setitem k v d)"

subsection \<open>The host application's objects\<close>

text \<open>
  The classes \<open>Metadata\<close>, \<open>File\<close> and \<open>Cluster\<close> belong to the host application. The
  model keeps what the plugin reads of them: a metadata object maps tag names to
  strings and has an integer \<open>length\<close>; \<open>metadata.get(k, d)\<close> gives \<open>d\<close> for an absent
  tag, and \<open>metadata[k]\<close> gives the empty string for an absent tag.
\<close>

record metadata =
  tags :: "string \<rightharpoonup> string"
  length_md :: int

definition get :: "metadata \<Rightarrow> string \<Rightarrow> string \<Rightarrow> string" where
  "get md k d = (case tags md k of None \<Rightarrow> d | Some v \<Rightarrow> v)"

definition getitem :: "metadata \<Rightarrow> string \<Rightarrow> string" where
  "getitem md k = get md k []"

record audio_file =
  file_metadata :: metadata

record cluster =
  cluster_metadata :: metadata
  files :: "audio_file list"

datatype obj = ClusterObj cluster | FileObj audio_file | OtherObj

datatype pyclass = Cluster | File

fun isinstance :: "obj \<Rightarrow> pyclass \<Rightarrow> bool" where
  "isinstance (ClusterObj c) t = (t = Cluster)"
| "isinstance (FileObj f) t = (t = File)"
| "isinstance OtherObj t = False"

subsection \<open>The plugin instance and its surroundings\<close>

text \<open>A call \<open>log.info(fmt, args)\<close> is recorded with its format string and arguments.\<close>

datatype log_arg = Str string | Exc error

datatype log_record = Info string "log_arg list"

text \<open>\<open>form_values\<close> and \<open>discnumber_shift\<close> are the fields of the one registered
  \<open>AddClusterAsRelease\<close> instance; \<open>logged\<close> is what was sent to the log and \<open>opened\<close>
  the HTML documents handed to the browser, oldest first.\<close>

record state =
  form_values :: "(string \<times> string) list"
  discnumber_shift :: int
  logged :: "log_record list"
  opened :: "string list"

text \<open>\<open>AddClusterAsRelease.__init__\<close>, run once when the module registers the action.\<close>

definition AddClusterAsRelease_init :: state where
  "AddClusterAsRelease_init =
     \<lparr>form_values = [], discnumber_shift = - 1, logged = [], opened = []\<rparr>"

definition add_form_value :: "string \<Rightarrow> string \<Rightarrow> state \<Rightarrow> state" where
  "add_form_value key val st = st\<lparr>form_values := dict_setitem key val (form_values st)\<rparr>"

definition log_info :: "string \<Rightarrow> log_arg list \<Rightarrow> state \<Rightarrow> state" where
  "log_info fmt args st = st\<lparr>logged := logged st @ [Info fmt args]\<rparr>"

subsection \<open>extract_discnumber\<close>

definition discnumber_msg :: string where
  "discnumber_msg =
     ''Trying to get the disc number of %s caused the following error: %s; assuming 0''"

text \<open>The text left of the first slash of the disc-number tag, as the first two
  statements of the \<open>try\<close> block compute it.\<close>

definition discnumber_text :: "metadata \<Rightarrow> error + string" where
  "discnumber_text md = item0 (split1 CHR ''/'' (get md ''discnumber'' ''1''))"

text \<open>The \<open>try\<close> block: nothing is assigned to the instance before \<open>int\<close> has returned,
  so an exception leaves the state as it was.\<close>

definition extract_try :: "metadata \<Rightarrow> state \<Rightarrow> (error + int) \<times> state" where
  "extract_try md st =
     (case discnumber_text md of
        Inl e \<Rightarrow> (Inl e, st)
      | Inr discnumber \<Rightarrow>
          (case int_py discnumber of
             Inl e \<Rightarrow> (Inl e, st)
           | Inr m \<Rightarrow>
               (let st1 = (if m \<le> 0
                           then st\<lparr>discnumber_shift := max (discnumber_shift st) (0 - m)\<rparr>
                           else st)
                in (Inr (m + discnumber_shift st1), st1))))"

text \<open>The whole method: \<open>except ValueError\<close> logs and yields 0, any other exception
  goes on to the caller.\<close>

definition extract_discnumber :: "metadata \<Rightarrow> state \<Rightarrow> (error + int) \<times> state" where
  "extract_discnumber md st =
     (case extract_try md st of
        (Inr m, st1) \<Rightarrow> (Inr m, st1)
      | (Inl (ValueError msg), st1) \<Rightarrow>
          (Inr 0, log_info discnumber_msg
                    [Str (getitem md ''~filename''), Exc (ValueError msg)] st1)
      | (Inl e, st1) \<Rightarrow> (Inl e, st1))"

text \<open>Successive calls on one instance, one per metadata object, as the doctest of the
  method and the loop of \<open>set_form_values\<close> make them.\<close>

fun extract_all :: "metadata list \<Rightarrow> state \<Rightarrow> (error + int) list \<times> state" where
  "extract_all [] st = ([], st)"
| "extract_all (md # mds) st =
     (case extract_discnumber md st of
        (r, st1) \<Rightarrow> (case extract_all mds st1 of (rs, st2) \<Rightarrow> (r # rs, st2)))"

text \<open>A metadata object holding just a disc-number tag, as in the doctest.\<close>

definition disc :: "string \<Rightarrow> metadata" where
  "disc s = \<lparr>tags = [''discnumber'' \<mapsto> s], length_md = 0\<rparr>"

subsection \<open>check_object\<close>

text \<open>The method returns \<open>False\<close> or the object; \<open>None\<close> stands for \<open>False\<close>. The first
  operand of \<open>or\<close> reads \<open>objs[0]\<close> before the length is looked at.\<close>

definition check_object :: "obj list \<Rightarrow> pyclass \<Rightarrow> error + obj option" where
  "check_object objs objtype =
     (case item0 objs of
        Inl e \<Rightarrow> Inl e
      | Inr x \<Rightarrow>
          (if \<not> isinstance x objtype \<or> length objs \<noteq> 1 then Inr None
           else (case item0 objs of Inl e \<Rightarrow> Inl e | Inr y \<Rightarrow> Inr (Some y))))"

subsection \<open>set_form_values of AddClusterAsRelease\<close>

text \<open>The \<open>try\<close> statement at the head of the loop body: the enumeration index \<open>i\<close> is
  replaced when the track-number tag converts, and kept on any exception.\<close>

definition track_index :: "nat \<Rightarrow> metadata \<Rightarrow> int" where
  "track_index i md =
     (case int_py (getitem md ''tracknumber'') of Inr n \<Rightarrow> n - 1 | Inl e \<Rightarrow> int i)"

text \<open>The format expression \<open>"mediums.%d.track.%d.%s" % (m, i, n)\<close>.\<close>

definition track_path :: "int \<Rightarrow> int \<Rightarrow> string \<Rightarrow> string" where
  "track_path m i n = ''mediums.'' @ str_int m @ ''.track.'' @ str_int i @ ''.'' @ n"

text \<open>The local function \<open>tnv\<close>, with the \<open>m\<close> and \<open>i\<close> it closes over.\<close>

definition tnv :: "int \<Rightarrow> int \<Rightarrow> string \<Rightarrow> string \<Rightarrow> state \<Rightarrow> state" where
  "tnv m i n v = add_form_value (track_path m i n) v"

text \<open>One pass of the \<open>for\<close> loop, for the file at enumeration index \<open>p\<close>.\<close>

definition loop_body :: "cluster \<Rightarrow> nat \<times> audio_file \<Rightarrow> state \<Rightarrow> (error + unit) \<times> state" where
  "loop_body c pf st =
     (let md = file_metadata (snd pf);
          i = track_index (fst pf) md
      in case extract_discnumber md st of
           (Inl e, st1) \<Rightarrow> (Inl e, st1)
         | (Inr m, st1) \<Rightarrow>
             (let st2 = tnv m i ''name'' (getitem md ''title'') st1;
                  st3 = (if getitem md ''artist'' \<noteq> getitem (cluster_metadata c) ''albumartist''
                         then tnv m i ''artist_credit.names.0.name'' (getitem md ''artist'') st2
                         else st2);
                  st4 = tnv m i ''length'' (str_int (length_md md)) st3
              in (Inr (), st4)))"

fun for_files :: "cluster \<Rightarrow> (nat \<times> audio_file) list \<Rightarrow> state \<Rightarrow> (error + unit) \<times> state" where
  "for_files c [] st = (Inr (), st)"
| "for_files c (pf # pfs) st =
     (case loop_body c pf st of
        (Inl e, st1) \<Rightarrow> (Inl e, st1)
      | (Inr u, st1) \<Rightarrow> for_files c pfs st1)"

definition set_form_values :: "cluster \<Rightarrow> state \<Rightarrow> (error + unit) \<times> state" where
  "set_form_values c st =
     (let st1 = add_form_value ''artist_credit.names.0.artist.name''
                  (getitem (cluster_metadata c) ''albumartist'') st;
          st2 = add_form_value ''name'' (getitem (cluster_metadata c) ''album'') st1
      in for_files c (enumerate 0 (files c)) st2)"

subsection \<open>The HTML document and the callback\<close>

text \<open>The server settings and the list of official servers are the host application's;
  so is the truth value of its objects, which \<open>if objdata\<close> asks for.\<close>

record env =
  server_host :: string
  server_port :: "int option"
  MUSICBRAINZ_SERVERS :: "string list"
  truth :: "obj \<Rightarrow> bool"

definition mbserver_url :: "env \<Rightarrow> string \<Rightarrow> string" where
  "mbserver_url e path =
     (let host = server_host e; port = server_port e
      in if host \<in> set (MUSICBRAINZ_SERVERS e) \<or> port = Some 443
         then ''https://'' @ host @ path
         else (case port of
                 None \<Rightarrow> ''http://'' @ host @ path
               | Some n \<Rightarrow>
                   if n = 80 then ''http://'' @ host @ path
                   else ''http://'' @ host @ '':'' @ str_int n @ path))"

definition HTML_HEAD :: "string \<Rightarrow> string \<Rightarrow> string" where
  \<open>HTML_HEAD title action =
     ''<!doctype html>'' @ [CHR 0x0A] @
     ''<meta charset='' @ [CHR 0x22] @ ''UTF-8'' @ [CHR 0x22] @ ''>'' @ [CHR 0x0A] @
     ''<title>'' @ title @ ''</title>'' @ [CHR 0x0A] @
     ''<form action='' @ [CHR 0x22] @ action @ [CHR 0x22] @
     '' method='' @ [CHR 0x22] @ ''post'' @ [CHR 0x22] @ ''>'' @ [CHR 0x0A]\<close>

definition HTML_INPUT :: "string \<Rightarrow> string \<Rightarrow> string" where
  \<open>HTML_INPUT n v =
     ''<input type='' @ [CHR 0x22] @ ''hidden'' @ [CHR 0x22] @
     '' name='' @ [CHR 0x22] @ n @ [CHR 0x22] @
     '' value='' @ [CHR 0x22] @ v @ [CHR 0x22] @ ''>'' @ [CHR 0x0A]\<close>

definition HTML_TAIL :: "string \<Rightarrow> string" where
  \<open>HTML_TAIL v =
     ''<input type='' @ [CHR 0x22] @ ''submit'' @ [CHR 0x22] @
     '' value='' @ [CHR 0x22] @ v @ [CHR 0x22] @ ''>'' @ [CHR 0x0A] @
     ''</form>'' @ [CHR 0x0A] @
     ''<script>document.forms[0].submit()</script>'' @ [CHR 0x0A]\<close>

definition HTML_ATTR_ESCAPE :: "char \<rightharpoonup> string" where
  "HTML_ATTR_ESCAPE = [CHR ''&'' \<mapsto> ''&amp;'', CHR 0x22 \<mapsto> ''&quot;'']"

definition esc :: "string \<Rightarrow> string" where
  "esc s = concat (map (\<lambda>c. case HTML_ATTR_ESCAPE c of None \<Rightarrow> [c] | Some r \<Rightarrow> r) s)"

text \<open>What the class and its subclass fix for an action: the class attributes and the
  \<open>set_form_values\<close> method.\<close>

record action =
  NAME :: string
  objtype :: pyclass
  submit_path :: string
  set_form_values_of :: "obj \<Rightarrow> state \<Rightarrow> (error + unit) \<times> state"

text \<open>The content written to the temporary file: the head, one hidden input for each
  key in the dictionary's order, the tail.\<close>

definition generate_html_file :: "action \<Rightarrow> env \<Rightarrow> (string \<times> string) list \<Rightarrow> string" where
  "generate_html_file a e fv =
     HTML_HEAD (NAME a) (mbserver_url e (submit_path a)) @
     concat (map (\<lambda>kv. HTML_INPUT (esc (fst kv)) (esc (snd kv))) fv) @
     HTML_TAIL (NAME a)"

definition open_html_file :: "string \<Rightarrow> state \<Rightarrow> state" where
  "open_html_file doc st = st\<lparr>opened := opened st @ [doc]\<rparr>"

text \<open>\<open>callback\<close>: \<open>check_object\<close> runs before the \<open>try\<close>; the \<open>finally\<close> clause empties
  \<open>form_values\<close> however the body ends, and assigns to no other field.\<close>

definition callback :: "action \<Rightarrow> env \<Rightarrow> obj list \<Rightarrow> state \<Rightarrow> (error + unit) \<times> state" where
  "callback a e objs st =
     (case check_object objs (objtype a) of
        Inl x \<Rightarrow> (Inl x, st)
      | Inr objdata \<Rightarrow>
          (let body =
                 (case objdata of
                    None \<Rightarrow> (Inr (), st)
                  | Some x \<Rightarrow>
                      if truth e x
                      then (case set_form_values_of a x st of
                              (Inl err, st1) \<Rightarrow> (Inl err, st1)
                            | (Inr u, st1) \<Rightarrow>
                                (Inr (),
                                 open_html_file (generate_html_file a e (form_values st1)) st1))
                      else (Inr (), st))
           in (fst body, (snd body)\<lparr>form_values := []\<rparr>)))"

text \<open>The registered action. Its method reads \<open>cluster.metadata\<close> and \<open>cluster.files\<close>,
  attributes that only a cluster has.\<close>

definition AddClusterAsRelease :: action where
  "AddClusterAsRelease =
     \<lparr>NAME = ''Add Cluster As Release...'',
      objtype = Cluster,
      submit_path = ''/release/add'',
      set_form_values_of =
        (\<lambda>x st. case x of ClusterObj c \<Rightarrow> set_form_values c st
                          | _ \<Rightarrow> (Inl AttributeError, st))\<rparr>"


subsection \<open>A small cluster to run the code on\<close>

text \<open>Two files of one album: the first is on disc 1 and by the album's artist, the
  second carries disc number 0 and another artist. A third file has tags that are not
  numbers.\<close>

definition demo_file1 :: audio_file where
  "demo_file1 =
     \<lparr>file_metadata =
        \<lparr>tags = [''discnumber'' \<mapsto> ''1'', ''tracknumber'' \<mapsto> ''1'', ''title'' \<mapsto> ''A'',
                 ''artist'' \<mapsto> ''X''],
         length_md = 1000\<rparr>\<rparr>"

definition demo_file2 :: audio_file where
  "demo_file2 =
     \<lparr>file_metadata =
        \<lparr>tags = [''discnumber'' \<mapsto> ''0'', ''tracknumber'' \<mapsto> ''2'', ''title'' \<mapsto> ''B'',
                 ''artist'' \<mapsto> ''Y''],
         length_md = 2000\<rparr>\<rparr>"


definition demo_cluster :: cluster where
  "demo_cluster =
     \<lparr>cluster_metadata = \<lparr>tags = [''albumartist'' \<mapsto> ''X'', ''album'' \<mapsto> ''L''], length_md = 0\<rparr>,
      files = [demo_file1, demo_file2]\<rparr>"

definition demo_env :: env where
  "demo_env =
     \<lparr>server_host = ''musicbrainz.org'', server_port = Some 443,
      MUSICBRAINZ_SERVERS = [''musicbrainz.org''], truth = (\<lambda>x. True)\<rparr>"

section \<open>Properties\<close>

subsection \<open>Facts about the built-ins and about one call of extract_discnumber\<close>

lemma int_py_error: "int_py s = Inl e \<Longrightarrow> e = ValueError s"
  by (auto simp: int_py_def Let_def split: if_splits option.splits)

lemma item0_split1: "item0 (split1 sep s) = Inr (takeWhile (\<lambda>c. c \<noteq> sep) s)"
proof (cases "sep \<in> set s")
  case True
  then show ?thesis by (simp add: split1_def item0_def)
next
  case False
  then have whole: "takeWhile (\<lambda>c. c \<noteq> sep) s = s"
    by auto
  show ?thesis
    unfolding whole using False by (simp add: split1_def item0_def)
qed

lemma discnumber_text_eq:
  "discnumber_text md = Inr (takeWhile (\<lambda>c. c \<noteq> CHR ''/'') (get md ''discnumber'' ''1''))"
  by (simp add: discnumber_text_def item0_split1)

lemma extract_discnumber_parsed:
  assumes "discnumber_text md = Inr s" and "int_py s = Inr m"
  shows "extract_discnumber md st =
           (if m \<le> 0
            then (Inr (m + max (discnumber_shift st) (- m)),
                  st\<lparr>discnumber_shift := max (discnumber_shift st) (- m)\<rparr>)
            else (Inr (m + discnumber_shift st), st))"
  using assms by (simp add: extract_discnumber_def extract_try_def Let_def)

lemma extract_discnumber_failed:
  assumes "discnumber_text md = Inr s" and "int_py s = Inl e"
  shows "extract_discnumber md st =
           (Inr 0, st\<lparr>logged := logged st @
              [Info discnumber_msg [Str (getitem md ''~filename''), Exc e]]\<rparr>)"
  using assms int_py_error[OF assms(2)]
  by (simp add: extract_discnumber_def extract_try_def log_info_def)

lemma extract_discnumber_shift:
  "discnumber_shift (snd (extract_discnumber md st)) =
     (case int_py (takeWhile (\<lambda>c. c \<noteq> CHR ''/'') (get md ''discnumber'' ''1'')) of
        Inr m \<Rightarrow> if m \<le> 0 then max (discnumber_shift st) (- m) else discnumber_shift st
      | Inl e \<Rightarrow> discnumber_shift st)"
proof (cases "int_py (takeWhile (\<lambda>c. c \<noteq> CHR ''/'') (get md ''discnumber'' ''1''))")
  case (Inl e)
  then show ?thesis
    using extract_discnumber_failed[OF discnumber_text_eq Inl] by simp
next
  case (Inr m)
  then show ?thesis
    using extract_discnumber_parsed[OF discnumber_text_eq Inr] by simp
qed

lemma extract_discnumber_mono:
  "discnumber_shift st \<le> discnumber_shift (snd (extract_discnumber md st))"
  by (simp add: extract_discnumber_shift split: sum.split)

lemma extract_discnumber_nonneg:
  assumes "- 1 \<le> discnumber_shift st"
  shows "\<exists>m. fst (extract_discnumber md st) = Inr m \<and> 0 \<le> m"
proof (cases "int_py (takeWhile (\<lambda>c. c \<noteq> CHR ''/'') (get md ''discnumber'' ''1''))")
  case (Inl e)
  then show ?thesis
    using extract_discnumber_failed[OF discnumber_text_eq Inl] by simp
next
  case (Inr m)
  then show ?thesis
    using extract_discnumber_parsed[OF discnumber_text_eq Inr] assms by auto
qed

lemma extract_discnumber_returns: "\<exists>m. fst (extract_discnumber md st) = Inr m"
proof (cases "int_py (takeWhile (\<lambda>c. c \<noteq> CHR ''/'') (get md ''discnumber'' ''1''))")
  case (Inl e)
  then show ?thesis
    using extract_discnumber_failed[OF discnumber_text_eq Inl] by simp
next
  case (Inr m)
  then show ?thesis
    using extract_discnumber_parsed[OF discnumber_text_eq Inr] by auto
qed

lemma extract_discnumber_cong:
  assumes "discnumber_text md = discnumber_text md'"
    and "getitem md ''~filename'' = getitem md' ''~filename''"
  shows "extract_discnumber md st = extract_discnumber md' st"
  unfolding extract_discnumber_def extract_try_def assms ..

subsection \<open>Sequences of calls on one instance\<close>


lemma extract_all_nonneg:
  assumes "- 1 \<le> discnumber_shift st" and "r \<in> set (fst (extract_all mds st))"
  shows "\<exists>m. r = Inr m \<and> 0 \<le> m"
  using assms
proof (induction mds arbitrary: st)
  case Nil
  then show ?case by simp
next
  case (Cons md mds)
  from Cons.prems(2)
  consider "r = fst (extract_discnumber md st)"
    | "r \<in> set (fst (extract_all mds (snd (extract_discnumber md st))))"
    by (auto simp: split_beta)
  then show ?case
  proof cases
    case 1
    then show ?thesis using extract_discnumber_nonneg[OF Cons.prems(1)] by simp
  next
    case 2
    have "- 1 \<le> discnumber_shift (snd (extract_discnumber md st))"
      using Cons.prems(1) extract_discnumber_mono[of st md] by linarith
    from Cons.IH[OF this 2] show ?thesis .
  qed
qed

subsection \<open>The ordered dictionary\<close>

lemma dict_setitem_keys:
  "map fst (dict_setitem k v d) =
     (if k \<in> fst ` set d then map fst d else map fst d @ [k])"
  by (induction d) auto

lemma dict_setitem_lookup: "map_of (dict_setitem k v d) = (map_of d)(k \<mapsto> v)"
  by (induction d) (auto simp: fun_eq_iff)


lemma dict_setitem_prefix: "prefix (map fst d) (map fst (dict_setitem k v d))"
  by (simp add: dict_setitem_keys)

lemma dict_setitem_head2:
  assumes "take 2 d = [(k1, v1), (k2, v2)]" and "k \<noteq> k1" and "k \<noteq> k2"
  shows "take 2 (dict_setitem k v d) = [(k1, v1), (k2, v2)]"
proof -
  from assms(1) obtain rest where "d = (k1, v1) # (k2, v2) # rest"
    by (cases d; cases "tl d") auto
  with assms(2,3) show ?thesis by auto
qed

subsection \<open>What one pass of the loop does to the form values\<close>

lemma track_path_inject [simp]: "track_path m i n = track_path m i n' \<longleftrightarrow> n = n'"
  by (simp add: track_path_def)

lemma track_path_not_release [simp]:
  "track_path m i n \<noteq> ''artist_credit.names.0.artist.name''"
  "track_path m i n \<noteq> ''name''"
  by (simp_all add: track_path_def)

lemma extract_discnumber_form_values:
  "form_values (snd (extract_discnumber md st)) = form_values st"
proof (cases "int_py (takeWhile (\<lambda>c. c \<noteq> CHR ''/'') (get md ''discnumber'' ''1''))")
  case (Inl e)
  then show ?thesis
    using extract_discnumber_failed[OF discnumber_text_eq Inl] by simp
next
  case (Inr m)
  then show ?thesis
    using extract_discnumber_parsed[OF discnumber_text_eq Inr] by simp
qed

text \<open>The body of the loop, with the call of extract_discnumber taken out.\<close>

lemma loop_body_unfold:
  assumes "extract_discnumber (file_metadata f) st = (Inr m, st1)"
  shows "loop_body c (p, f) st =
           (Inr (),
            tnv m (track_index p (file_metadata f)) ''length''
              (str_int (length_md (file_metadata f)))
              ((if getitem (file_metadata f) ''artist'' \<noteq> getitem (cluster_metadata c) ''albumartist''
                then tnv m (track_index p (file_metadata f)) ''artist_credit.names.0.name''
                       (getitem (file_metadata f) ''artist'')
                else id)
                 (tnv m (track_index p (file_metadata f)) ''name''
                    (getitem (file_metadata f) ''title'') st1)))"
  using assms by (simp add: loop_body_def Let_def)

lemma extract_discnumber_pair:
  "\<exists>m st1. extract_discnumber md st = (Inr m, st1)"
  using extract_discnumber_returns[of md st]
  by (cases "extract_discnumber md st") auto

lemma loop_body_returns: "fst (loop_body c pf st) = Inr ()"
proof -
  obtain m st1 where "extract_discnumber (file_metadata (snd pf)) st = (Inr m, st1)"
    using extract_discnumber_pair by blast
  from loop_body_unfold[OF this, of c "fst pf"] show ?thesis by simp
qed

lemma tnv_form_values:
  "form_values (tnv m i n v st) = dict_setitem (track_path m i n) v (form_values st)"
  by (simp add: tnv_def add_form_value_def)


lemma loop_body_keys_prefix:
  "prefix (map fst (form_values st)) (map fst (form_values (snd (loop_body c pf st))))"
proof -
  obtain m st1 where ex: "extract_discnumber (file_metadata (snd pf)) st = (Inr m, st1)"
    using extract_discnumber_pair by blast
  have same: "form_values st1 = form_values st"
    using extract_discnumber_form_values[of "file_metadata (snd pf)" st] ex by simp
  have step: "prefix (map fst (form_values s)) (map fst (form_values (tnv m i n v s)))"
    for i n v s
    by (simp only: tnv_form_values dict_setitem_prefix)
  let ?i = "track_index (fst pf) (file_metadata (snd pf))"
  let ?s2 = "tnv m ?i ''name'' (getitem (file_metadata (snd pf)) ''title'') st1"
  let ?s3 = "(if getitem (file_metadata (snd pf)) ''artist''
                   \<noteq> getitem (cluster_metadata c) ''albumartist''
              then tnv m ?i ''artist_credit.names.0.name''
                     (getitem (file_metadata (snd pf)) ''artist'')
              else id) ?s2"
  have "prefix (map fst (form_values st)) (map fst (form_values ?s2))"
    using step[of st1] same by simp
  also have "prefix (map fst (form_values ?s2)) (map fst (form_values ?s3))"
    using step[of ?s2] by simp
  also have "prefix (map fst (form_values ?s3))
               (map fst (form_values (tnv m ?i ''length''
                  (str_int (length_md (file_metadata (snd pf)))) ?s3)))"
    by (rule step)
  finally show ?thesis
    using loop_body_unfold[OF ex, of c "fst pf"] by simp
qed

lemma loop_body_head2:
  assumes "take 2 (form_values st) =
             [(''artist_credit.names.0.artist.name'', a), (''name'', b)]"
  shows "take 2 (form_values (snd (loop_body c pf st))) =
             [(''artist_credit.names.0.artist.name'', a), (''name'', b)]"
proof -
  obtain m st1 where ex: "extract_discnumber (file_metadata (snd pf)) st = (Inr m, st1)"
    using extract_discnumber_pair by blast
  have same: "form_values st1 = form_values st"
    using extract_discnumber_form_values[of "file_metadata (snd pf)" st] ex by simp
  have step: "take 2 (form_values (tnv m i n v s)) =
                [(''artist_credit.names.0.artist.name'', a), (''name'', b)]"
    if "take 2 (form_values s) = [(''artist_credit.names.0.artist.name'', a), (''name'', b)]"
    for i n v s
    unfolding tnv_form_values
    by (rule dict_setitem_head2[OF that]) simp_all
  show ?thesis
    using loop_body_unfold[OF ex, of c "fst pf"] assms same
    by (auto intro!: step)
qed

subsection \<open>The whole loop\<close>

lemma for_files_returns: "fst (for_files c pfs st) = Inr ()"
proof (induction pfs arbitrary: st)
  case Nil
  show ?case by simp
next
  case (Cons pf pfs)
  obtain st1 where "loop_body c pf st = (Inr (), st1)"
    using loop_body_returns[of c pf st] by (cases "loop_body c pf st") auto
  with Cons.IH[of st1] show ?case by simp
qed

lemma for_files_Cons:
  "for_files c (pf # pfs) st = for_files c pfs (snd (loop_body c pf st))"
  using loop_body_returns[of c pf st] by (cases "loop_body c pf st") auto

lemma for_files_append:
  "for_files c (pfs @ qfs) st = for_files c qfs (snd (for_files c pfs st))"
  by (induction pfs arbitrary: st) (simp_all add: for_files_Cons del: for_files.simps(2))

lemma for_files_keys_prefix:
  "prefix (map fst (form_values st)) (map fst (form_values (snd (for_files c pfs st))))"
proof (induction pfs arbitrary: st)
  case Nil
  show ?case by simp
next
  case (Cons pf pfs)
  have "prefix (map fst (form_values st))
          (map fst (form_values (snd (loop_body c pf st))))"
    by (rule loop_body_keys_prefix)
  also have "prefix \<dots> (map fst (form_values (snd (for_files c pfs (snd (loop_body c pf st))))))"
    by (rule Cons.IH)
  finally show ?case
    by (simp only: for_files_Cons)
qed

lemma for_files_head2:
  assumes "take 2 (form_values st) =
             [(''artist_credit.names.0.artist.name'', a), (''name'', b)]"
  shows "take 2 (form_values (snd (for_files c pfs st))) =
             [(''artist_credit.names.0.artist.name'', a), (''name'', b)]"
  using assms
proof (induction pfs arbitrary: st)
  case Nil
  then show ?case by simp
next
  case (Cons pf pfs)
  from Cons.IH[OF loop_body_head2[OF Cons.prems]] show ?case
    by (simp only: for_files_Cons)
qed

lemma for_files_cluster_files:
  "for_files (c\<lparr>files := fs\<rparr>) pfs st = for_files c pfs st"
proof (induction pfs arbitrary: st)
  case Nil
  show ?case by simp
next
  case (Cons pf pfs)
  have same_metadata: "cluster_metadata (c\<lparr>files := fs\<rparr>) = cluster_metadata c"
    by simp
  have "loop_body (c\<lparr>files := fs\<rparr>) pf st = loop_body c pf st"
    unfolding loop_body_def same_metadata ..
  with Cons.IH show ?case by (simp only: for_files_Cons)
qed

lemma enumerate_take_drop:
  "enumerate 0 xs = enumerate 0 (take n xs) @ enumerate (length (take n xs)) (drop n xs)"
  using enumerate_append_eq[of 0 "take n xs" "drop n xs"] by simp







subsection \<open>The callback on a cluster\<close>

lemma callback_cluster:
  assumes "set_form_values c st = (Inr (), s)" and "truth e (ClusterObj c)"
  shows "callback AddClusterAsRelease e [ClusterObj c] st =
           (Inr (),
            s\<lparr>form_values := [],
              opened := opened s @ [generate_html_file AddClusterAsRelease e (form_values s)]\<rparr>)"
  using assms
  by (simp add: callback_def check_object_def item0_def AddClusterAsRelease_def
      open_html_file_def)

lemma generate_html_file_inject:
  "generate_html_file a e fv = generate_html_file a e fv' \<longleftrightarrow>
   concat (map (\<lambda>kv. HTML_INPUT (esc (fst kv)) (esc (snd kv))) fv) =
   concat (map (\<lambda>kv. HTML_INPUT (esc (fst kv)) (esc (snd kv))) fv')"
  by (simp add: generate_html_file_def)

subsection \<open>Two invocations on the same cluster\<close>

text \<open>
  C1 says that the shift is -1 again at the start of every invocation of the action, so
  that the same cluster always gives the same form values. The callback empties
  \<open>form_values\<close> when it is done but leaves \<open>discnumber_shift\<close> as the invocation left it.
  For the cluster whose two files carry the disc numbers 1 and 0, the first invocation
  ends with the shift at 0, and the second invocation on the same cluster puts the
  first file on medium 1 where the first invocation had put it on medium 0; the two
  documents handed to the browser differ.
\<close>

theorem shift_survives_callback:
  "callback AddClusterAsRelease demo_env [ClusterObj demo_cluster] AddClusterAsRelease_init =
     (Inr (),
      \<lparr>form_values = [], discnumber_shift = 0, logged = [],
       opened = [generate_html_file AddClusterAsRelease demo_env
         [(''artist_credit.names.0.artist.name'', ''X''), (''name'', ''L''),
          (''mediums.0.track.0.name'', ''A''), (''mediums.0.track.0.length'', ''1000''),
          (''mediums.0.track.1.name'', ''B''),
          (''mediums.0.track.1.artist_credit.names.0.name'', ''Y''),
          (''mediums.0.track.1.length'', ''2000'')]]\<rparr>)
   \<and> callback AddClusterAsRelease demo_env [ClusterObj demo_cluster]
       (snd (callback AddClusterAsRelease demo_env [ClusterObj demo_cluster]
               AddClusterAsRelease_init)) =
     (Inr (),
      \<lparr>form_values = [], discnumber_shift = 0, logged = [],
       opened = [generate_html_file AddClusterAsRelease demo_env
         [(''artist_credit.names.0.artist.name'', ''X''), (''name'', ''L''),
          (''mediums.0.track.0.name'', ''A''), (''mediums.0.track.0.length'', ''1000''),
          (''mediums.0.track.1.name'', ''B''),
          (''mediums.0.track.1.artist_credit.names.0.name'', ''Y''),
          (''mediums.0.track.1.length'', ''2000'')],
        generate_html_file AddClusterAsRelease demo_env
         [(''artist_credit.names.0.artist.name'', ''X''), (''name'', ''L''),
          (''mediums.1.track.0.name'', ''A''), (''mediums.1.track.0.length'', ''1000''),
          (''mediums.0.track.1.name'', ''B''),
          (''mediums.0.track.1.artist_credit.names.0.name'', ''Y''),
          (''mediums.0.track.1.length'', ''2000'')]]\<rparr>)
   \<and> generate_html_file AddClusterAsRelease demo_env
         [(''artist_credit.names.0.artist.name'', ''X''), (''name'', ''L''),
          (''mediums.0.track.0.name'', ''A''), (''mediums.0.track.0.length'', ''1000''),
          (''mediums.0.track.1.name'', ''B''),
          (''mediums.0.track.1.artist_credit.names.0.name'', ''Y''),
          (''mediums.0.track.1.length'', ''2000'')]
     \<noteq> generate_html_file AddClusterAsRelease demo_env
         [(''artist_credit.names.0.artist.name'', ''X''), (''name'', ''L''),
          (''mediums.1.track.0.name'', ''A''), (''mediums.1.track.0.length'', ''1000''),
          (''mediums.0.track.1.name'', ''B''),
          (''mediums.0.track.1.artist_credit.names.0.name'', ''Y''),
          (''mediums.0.track.1.length'', ''2000'')]"
proof -
  let ?fv1 = "[(''artist_credit.names.0.artist.name'', ''X''), (''name'', ''L''),
          (''mediums.0.track.0.name'', ''A''), (''mediums.0.track.0.length'', ''1000''),
          (''mediums.0.track.1.name'', ''B''),
          (''mediums.0.track.1.artist_credit.names.0.name'', ''Y''),
          (''mediums.0.track.1.length'', ''2000'')]"
  let ?fv2 = "[(''artist_credit.names.0.artist.name'', ''X''), (''name'', ''L''),
          (''mediums.1.track.0.name'', ''A''), (''mediums.1.track.0.length'', ''1000''),
          (''mediums.0.track.1.name'', ''B''),
          (''mediums.0.track.1.artist_credit.names.0.name'', ''Y''),
          (''mediums.0.track.1.length'', ''2000'')]"
  have truthy: "truth demo_env (ClusterObj demo_cluster)"
    by (simp add: demo_env_def)
  have run1: "set_form_values demo_cluster AddClusterAsRelease_init =
      (Inr (), \<lparr>form_values = ?fv1, discnumber_shift = 0, logged = [], opened = []\<rparr>)"
    by code_simp
  have run2: "set_form_values demo_cluster
        \<lparr>form_values = [], discnumber_shift = 0, logged = [], opened = ds\<rparr> =
      (Inr (), \<lparr>form_values = ?fv2, discnumber_shift = 0, logged = [], opened = ds\<rparr>)" for ds
    by code_simp
  have first: "callback AddClusterAsRelease demo_env [ClusterObj demo_cluster]
        AddClusterAsRelease_init =
     (Inr (), \<lparr>form_values = [], discnumber_shift = 0, logged = [],
       opened = [generate_html_file AddClusterAsRelease demo_env ?fv1]\<rparr>)"
    using callback_cluster[OF run1 truthy] by simp
  have second: "callback AddClusterAsRelease demo_env [ClusterObj demo_cluster]
       (snd (callback AddClusterAsRelease demo_env [ClusterObj demo_cluster]
               AddClusterAsRelease_init)) =
     (Inr (), \<lparr>form_values = [], discnumber_shift = 0, logged = [],
       opened = [generate_html_file AddClusterAsRelease demo_env ?fv1,
                 generate_html_file AddClusterAsRelease demo_env ?fv2]\<rparr>)"
    unfolding first snd_conv using callback_cluster[OF run2 truthy] by simp
  have differ: "generate_html_file AddClusterAsRelease demo_env ?fv1
                  \<noteq> generate_html_file AddClusterAsRelease demo_env ?fv2"
    by (simp add: generate_html_file_inject HTML_INPUT_def esc_def HTML_ATTR_ESCAPE_def)
  show ?thesis
    by (intro conjI first second differ)
qed

subsection \<open>The doctest sequences\<close>

text \<open>
  C2, as the specification states it: on one fresh instance, the call with "-1/4"
  followed by the call with "1/4" makes the second call return 3, with the shift at 2.
  The code gives something else: the first call raises the shift from -1 to 1 only, and
  the second call returns 2.
\<close>

theorem fresh_minus1_then_1_not_3:
  "\<not> (last (fst (extract_all [disc ''-1/4'', disc ''1/4''] AddClusterAsRelease_init)) = Inr 3
      \<and> discnumber_shift
          (snd (extract_all [disc ''-1/4'', disc ''1/4''] AddClusterAsRelease_init)) = 2)"
  by code_simp

text \<open>
  C2, amended: on one fresh instance, the call with "-1/4" returns 0 and raises the
  shift to 1, and the following call with "1/4" reflects the raise and returns 2. The
  second call returns 3, with the shift at 2, when a call with "-2/2" has been made on
  the instance before the two, which is the sequence of the method's doctest.
\<close>

theorem doctest_sequences:
  "extract_all [disc ''-1/4'', disc ''1/4''] AddClusterAsRelease_init =
     ([Inr 0, Inr 2], AddClusterAsRelease_init\<lparr>discnumber_shift := 1\<rparr>)
   \<and> extract_all [disc ''-2/2'', disc ''-1/4'', disc ''1/4''] AddClusterAsRelease_init =
     ([Inr 0, Inr 1, Inr 3], AddClusterAsRelease_init\<lparr>discnumber_shift := 2\<rparr>)"
  by code_simp

subsection \<open>Medium numbers are never negative\<close>

text \<open>
  C3: whatever the sequence of disc-number tags handed to one instance that starts with
  the shift at -1, every call returns a number, and that number is at least 0. This
  covers the calls whose tag converts to a number below 1 and the calls whose tag does
  not convert at all.
\<close>

theorem medium_numbers_nonneg:
  assumes "discnumber_shift st = - 1"
  shows "\<forall>r \<in> set (fst (extract_all mds st)). \<exists>m. r = Inr m \<and> 0 \<le> m"
proof
  fix r
  assume "r \<in> set (fst (extract_all mds st))"
  moreover have "- 1 \<le> discnumber_shift st"
    using assms by simp
  ultimately show "\<exists>m. r = Inr m \<and> 0 \<le> m"
    by (rule extract_all_nonneg[rotated])
qed

theorem medium_numbers_nonneg_witness:
  "discnumber_shift AddClusterAsRelease_init = - 1
   \<and> fst (extract_all [disc ''3'', disc ''-1/4'', disc ''boop'', disc ''1/4'']
            AddClusterAsRelease_init) = [Inr 2, Inr 0, Inr 0, Inr 2]
   \<and> (\<exists>m. fst (extract_all [disc ''3'', disc ''-1/4'', disc ''boop'', disc ''1/4'']
                 AddClusterAsRelease_init) ! 3 = Inr m \<and> 0 \<le> m)"
proof -
  have fresh: "discnumber_shift AddClusterAsRelease_init = - 1"
    by (simp add: AddClusterAsRelease_init_def)
  have run: "fst (extract_all [disc ''3'', disc ''-1/4'', disc ''boop'', disc ''1/4'']
                    AddClusterAsRelease_init) = [Inr 2, Inr 0, Inr 0, Inr 2]"
    by code_simp
  have "length (fst (extract_all [disc ''3'', disc ''-1/4'', disc ''boop'', disc ''1/4'']
                       AddClusterAsRelease_init)) = 4"
    by (simp only: run) simp
  then have member: "fst (extract_all [disc ''3'', disc ''-1/4'', disc ''boop'', disc ''1/4'']
                       AddClusterAsRelease_init) ! 3
      \<in> set (fst (extract_all [disc ''3'', disc ''-1/4'', disc ''boop'', disc ''1/4'']
                    AddClusterAsRelease_init))"
    by (intro nth_mem) simp
  have last_call: "\<exists>m. fst (extract_all [disc ''3'', disc ''-1/4'', disc ''boop'', disc ''1/4'']
                 AddClusterAsRelease_init) ! 3 = Inr m \<and> 0 \<le> m"
    by (rule medium_numbers_nonneg[OF fresh, THEN bspec, OF member])
  show ?thesis
    by (intro conjI fresh run last_call)
qed

subsection \<open>A tag that is not a number\<close>



subsection \<open>The shift never goes down\<close>


subsection \<open>Plain disc numbers on a fresh instance\<close>

text \<open>
  C6: on an instance whose shift is -1, a file without a disc-number tag gets medium 0,
  the tag "1" gives 0, "2" gives 1 and "2/2" gives 1, and none of these calls changes
  the instance. In general the tag may be cut at its first slash without any change to
  what the call returns or does: the text from the slash on plays no part.
\<close>

theorem plain_discnumbers:
  "extract_discnumber (md\<lparr>tags := (tags md)(''discnumber'' := None)\<rparr>)
       (st\<lparr>discnumber_shift := - 1\<rparr>) = (Inr 0, st\<lparr>discnumber_shift := - 1\<rparr>)
   \<and> extract_discnumber (md\<lparr>tags := (tags md)(''discnumber'' \<mapsto> ''1'')\<rparr>)
       (st\<lparr>discnumber_shift := - 1\<rparr>) = (Inr 0, st\<lparr>discnumber_shift := - 1\<rparr>)
   \<and> extract_discnumber (md\<lparr>tags := (tags md)(''discnumber'' \<mapsto> ''2'')\<rparr>)
       (st\<lparr>discnumber_shift := - 1\<rparr>) = (Inr 1, st\<lparr>discnumber_shift := - 1\<rparr>)
   \<and> extract_discnumber (md\<lparr>tags := (tags md)(''discnumber'' \<mapsto> ''2/2'')\<rparr>)
       (st\<lparr>discnumber_shift := - 1\<rparr>) = (Inr 1, st\<lparr>discnumber_shift := - 1\<rparr>)
   \<and> extract_discnumber (md\<lparr>tags := (tags md)(''discnumber'' \<mapsto> s)\<rparr>) st' =
     extract_discnumber
       (md\<lparr>tags := (tags md)(''discnumber'' \<mapsto> takeWhile (\<lambda>c. c \<noteq> CHR ''/'') s)\<rparr>) st'"
proof -
  have one: "int_py ''1'' = Inr 1" by code_simp
  have two: "int_py ''2'' = Inr 2" by code_simp
  have absent: "discnumber_text (md\<lparr>tags := (tags md)(''discnumber'' := None)\<rparr>) = Inr ''1''"
    by (simp add: discnumber_text_eq get_def)
  have t1: "discnumber_text (md\<lparr>tags := (tags md)(''discnumber'' \<mapsto> ''1'')\<rparr>) = Inr ''1''"
    by (simp add: discnumber_text_eq get_def)
  have t2: "discnumber_text (md\<lparr>tags := (tags md)(''discnumber'' \<mapsto> ''2'')\<rparr>) = Inr ''2''"
    by (simp add: discnumber_text_eq get_def)
  have t22: "discnumber_text (md\<lparr>tags := (tags md)(''discnumber'' \<mapsto> ''2/2'')\<rparr>) = Inr ''2''"
    by (simp add: discnumber_text_eq get_def)
  have cut: "extract_discnumber (md\<lparr>tags := (tags md)(''discnumber'' \<mapsto> s)\<rparr>) st' =
     extract_discnumber
       (md\<lparr>tags := (tags md)(''discnumber'' \<mapsto> takeWhile (\<lambda>c. c \<noteq> CHR ''/'') s)\<rparr>) st'"
    by (rule extract_discnumber_cong) (simp_all add: discnumber_text_eq get_def getitem_def)
  show ?thesis
    using extract_discnumber_parsed[OF absent one, of "st\<lparr>discnumber_shift := - 1\<rparr>"]
      extract_discnumber_parsed[OF t1 one, of "st\<lparr>discnumber_shift := - 1\<rparr>"]
      extract_discnumber_parsed[OF t2 two, of "st\<lparr>discnumber_shift := - 1\<rparr>"]
      extract_discnumber_parsed[OF t22 two, of "st\<lparr>discnumber_shift := - 1\<rparr>"]
      cut
    by simp
qed

subsection \<open>The artist field of a track\<close>



subsection \<open>The track index\<close>



subsection \<open>The order of the form values\<close>

text \<open>
  C9: started on an empty dictionary, set_form_values leaves the release's artist and
  name as the first two entries. The keys it has stored after the first n files are an
  initial segment of the keys it has stored after all files, so the fields of a file
  come after everything stored for the files before it. Storing under a key that is
  present keeps the sequence of keys as it is and replaces the value; storing under a
  new key puts the key last.
\<close>

theorem form_values_order:
  "(form_values st = [] \<longrightarrow>
      take 2 (form_values (snd (set_form_values c st))) =
        [(''artist_credit.names.0.artist.name'', getitem (cluster_metadata c) ''albumartist''),
         (''name'', getitem (cluster_metadata c) ''album'')])
   \<and> prefix (map fst (form_values (snd (set_form_values (c\<lparr>files := take n (files c)\<rparr>) st))))
        (map fst (form_values (snd (set_form_values c st))))
   \<and> map fst (form_values (add_form_value key v s)) =
       (if key \<in> fst ` set (form_values s) then map fst (form_values s)
        else map fst (form_values s) @ [key])
   \<and> map_of (form_values (add_form_value key v s)) = (map_of (form_values s))(key \<mapsto> v)"
proof (intro conjI impI)
  assume "form_values st = []"
  then have "take 2 (form_values
               (add_form_value ''name'' (getitem (cluster_metadata c) ''album'')
                  (add_form_value ''artist_credit.names.0.artist.name''
                     (getitem (cluster_metadata c) ''albumartist'') st))) =
        [(''artist_credit.names.0.artist.name'', getitem (cluster_metadata c) ''albumartist''),
         (''name'', getitem (cluster_metadata c) ''album'')]"
    by (simp add: add_form_value_def)
  then show "take 2 (form_values (snd (set_form_values c st))) =
        [(''artist_credit.names.0.artist.name'', getitem (cluster_metadata c) ''albumartist''),
         (''name'', getitem (cluster_metadata c) ''album'')]"
    unfolding set_form_values_def Let_def by (rule for_files_head2)
next
  let ?st2 = "add_form_value ''name'' (getitem (cluster_metadata c) ''album'')
                (add_form_value ''artist_credit.names.0.artist.name''
                   (getitem (cluster_metadata c) ''albumartist'') st)"
  let ?first = "enumerate 0 (take n (files c))"
  let ?rest = "enumerate (length (take n (files c))) (drop n (files c))"
  have part: "set_form_values (c\<lparr>files := take n (files c)\<rparr>) st = for_files c ?first ?st2"
    by (simp add: set_form_values_def Let_def for_files_cluster_files)
  have "set_form_values c st = for_files c (?first @ ?rest) ?st2"
    unfolding set_form_values_def Let_def
    by (simp only: enumerate_take_drop[of "files c" n, symmetric])
  then have whole: "set_form_values c st = for_files c ?rest (snd (for_files c ?first ?st2))"
    by (simp only: for_files_append)
  show "prefix (map fst (form_values (snd (set_form_values (c\<lparr>files := take n (files c)\<rparr>) st))))
          (map fst (form_values (snd (set_form_values c st))))"
    unfolding part whole by (rule for_files_keys_prefix)
next
  show "map fst (form_values (add_form_value key v s)) =
       (if key \<in> fst ` set (form_values s) then map fst (form_values s)
        else map fst (form_values s) @ [key])"
    by (simp add: add_form_value_def dict_setitem_keys)
next
  show "map_of (form_values (add_form_value key v s)) = (map_of (form_values s))(key \<mapsto> v)"
    by (simp add: add_form_value_def dict_setitem_lookup)
qed

theorem form_values_order_witness:
  "form_values AddClusterAsRelease_init = []
   \<and> take 2 (form_values (snd (set_form_values demo_cluster AddClusterAsRelease_init))) =
       [(''artist_credit.names.0.artist.name'', ''X''), (''name'', ''L'')]
   \<and> form_values (snd (set_form_values demo_cluster AddClusterAsRelease_init)) =
       [(''artist_credit.names.0.artist.name'', ''X''), (''name'', ''L''),
        (''mediums.0.track.0.name'', ''A''), (''mediums.0.track.0.length'', ''1000''),
        (''mediums.0.track.1.name'', ''B''),
        (''mediums.0.track.1.artist_credit.names.0.name'', ''Y''),
        (''mediums.0.track.1.length'', ''2000'')]"
proof -
  have empty: "form_values AddClusterAsRelease_init = []"
    by (simp add: AddClusterAsRelease_init_def)
  have x: "getitem (cluster_metadata demo_cluster) ''albumartist'' = ''X''"
    by code_simp
  have l: "getitem (cluster_metadata demo_cluster) ''album'' = ''L''"
    by code_simp
  have head: "take 2 (form_values (snd (set_form_values demo_cluster AddClusterAsRelease_init))) =
       [(''artist_credit.names.0.artist.name'', ''X''), (''name'', ''L'')]"
    using form_values_order[of AddClusterAsRelease_init demo_cluster, THEN conjunct1, THEN mp,
        OF empty]
    by (simp only: x l)
  have all: "form_values (snd (set_form_values demo_cluster AddClusterAsRelease_init)) =
       [(''artist_credit.names.0.artist.name'', ''X''), (''name'', ''L''),
        (''mediums.0.track.0.name'', ''A''), (''mediums.0.track.0.length'', ''1000''),
        (''mediums.0.track.1.name'', ''B''),
        (''mediums.0.track.1.artist_credit.names.0.name'', ''Y''),
        (''mediums.0.track.1.length'', ''2000'')]"
    by code_simp
  show ?thesis
    by (intro conjI empty head all)
qed

subsection \<open>check_object\<close>

text \<open>
  C10: on the empty list check_object raises IndexError, because it reads the first
  element before it looks at the length. On a list with a first element x it returns
  x when x is an instance of the given class and nothing follows x, and False
  otherwise.
\<close>

theorem check_object_cases:
  "check_object [] t = Inl IndexError
   \<and> check_object (x # xs) t = Inr (if isinstance x t \<and> xs = [] then Some x else None)"
  by (simp add: check_object_def item0_def)

theorem check_object_cases_witness:
  "check_object [] Cluster = Inl IndexError
   \<and> check_object [ClusterObj demo_cluster] Cluster = Inr (Some (ClusterObj demo_cluster))
   \<and> check_object [FileObj demo_file1] Cluster = Inr None
   \<and> check_object [ClusterObj demo_cluster, ClusterObj demo_cluster] Cluster = Inr None"
  using check_object_cases[of Cluster "ClusterObj demo_cluster" "[]"]
    check_object_cases[of Cluster "FileObj demo_file1" "[]"]
    check_object_cases[of Cluster "ClusterObj demo_cluster" "[ClusterObj demo_cluster]"]
  by simp

end
